theory Spec2Isabelle
  imports Main "HOL-Library.Word"
begin

section \<open>Errors and bytes\<close>

text \<open>
  Go's \<open>[]byte\<close> is a list of 8-bit words; a nil slice and an empty slice are both
  \<open>[]\<close> here (the code under study never tells them apart for byte strings).
  An \<open>error\<close> value is either a message (\<open>errors.New\<close>, \<open>fmt.Errorf\<close> without
  \<open>%w\<close>), a wrapped error (\<open>fmt.Errorf("prefix: %w", err)\<close>), the block store's
  not-found error, or a runtime panic.
\<close>

type_synonym byte = "8 word"
type_synonym bytes = "byte list"

datatype error =
    Error string
  | Wrapped string error
  | NotFound "64 word"
  | Panic string

section \<open>Block model (package types)\<close>

text \<open>
  The declarations of \<open>types.Header\<close>, \<open>types.Data\<close> and \<open>types.Block\<close> are read off
  the composite literal in \<open>makeBlock\<close>: every field written there is a field here.
  Fixed-width arrays \<open>[32]byte\<close> and \<open>[8]byte\<close> are byte lists; their zero values are
  \<open>zero32\<close> and \<open>zero8\<close>.
\<close>

record Version =
  Block :: "32 word"
  App :: "32 word"

record Header =
  Version :: Version
  NamespaceID :: bytes
  Height :: "64 word"
  Time :: "64 word"
  LastHeaderHash :: bytes
  LastCommitHash :: bytes
  DataHash :: bytes
  ConsensusHash :: bytes
  AppHash :: bytes
  LastResultsHash :: bytes
  ProposerAddress :: bytes

record IntermediateStateRoots =
  RawRootsList :: "bytes list"

record EvidenceData =
  Evidence :: "bytes list"

record Data =
  Txs :: "bytes list"
  IntermediateStateRoots :: IntermediateStateRoots
  Evidence :: EvidenceData

record Block =
  Header :: Header
  Data :: Data

definition zero32 :: bytes where
  "zero32 = replicate 32 0"

definition zero8 :: bytes where
  "zero8 = replicate 8 0"

text \<open>
  Modelled from the spec: \<open>types.Hash\<close> is called by \<open>makeBlock\<close> but is not part of the
  sources at hand. The specification (section 4.4) describes it as a fixed, deterministic
  digest function over a canonical encoding of the structure. The digest itself is
  a parameter (one function per structure that is hashed); \<open>Hash\<close> returns it with a nil
  error. \<open>makeBlock\<close> below still carries both of its error branches.
\<close>

record hasher =
  digestHeader :: "Header \<Rightarrow> bytes"
  digestData :: "Data \<Rightarrow> bytes"

definition Hash_Header :: "hasher \<Rightarrow> Header \<Rightarrow> error + bytes" where
  "Hash_Header H h = Inr (digestHeader H h)"

definition Hash_Data :: "hasher \<Rightarrow> Data \<Rightarrow> error + bytes" where
  "Hash_Data H d = Inr (digestData H d)"

section \<open>Block store (package store)\<close>

text \<open>
  Modelled from the spec: the block store is created by \<open>store.NewBlockStore()\<close> in
  \<open>NewNode\<close>; its implementation is not part of the sources at hand. Section 4.3 of the
  specification gives its contract: \<open>Height()\<close> is the last saved height and 0 if the
  store is empty; \<open>SaveBlock\<close> persists a block under its height (overwriting is
  allowed); \<open>LoadBlock(h)\<close> fails with a not-found error if height \<open>h\<close> was never saved.
\<close>

record BlockStore =
  blocks :: "64 word \<rightharpoonup> Block"
  lastSaved :: "64 word"

definition NewBlockStore :: BlockStore where
  "NewBlockStore = \<lparr>blocks = Map.empty, lastSaved = 0\<rparr>"

definition store_Height :: "BlockStore \<Rightarrow> 64 word" where
  "store_Height s = lastSaved s"

definition SaveBlock :: "BlockStore \<Rightarrow> Block \<Rightarrow> error + BlockStore" where
  "SaveBlock s b =
     Inr (s\<lparr>blocks := (blocks s)(Height (Header b) \<mapsto> b), lastSaved := Height (Header b)\<rparr>)"

definition LoadBlock :: "BlockStore \<Rightarrow> 64 word \<Rightarrow> error + Block" where
  "LoadBlock s h = (case blocks s h of None \<Rightarrow> Inl (NotFound h) | Some b \<Rightarrow> Inr b)"

section \<open>Mempool (package mempool)\<close>

text \<open>
  Modelled from the spec: the mempool (\<open>mempool.CListMempool\<close>) is not part of the sources
  at hand. Section 4.2 of the specification: entries are kept in arrival order;
  \<open>ReapMaxBytesMaxGas(maxBytes, maxGas)\<close> returns a prefix of the pooled transactions, in
  FIFO order, that does not exceed the byte budget; a negative budget means unbounded;
  reaping removes nothing from the pool.
\<close>

record MempoolTx =
  Tx :: bytes
  gasWanted :: int

type_synonym CListMempool = "MempoolTx list"

fun reap :: "MempoolTx list \<Rightarrow> int \<Rightarrow> int \<Rightarrow> int \<Rightarrow> int \<Rightarrow> bytes list" where
  "reap [] maxBytes maxGas totalBytes totalGas = []"
| "reap (memTx # rest) maxBytes maxGas totalBytes totalGas =
     (let dataSize = totalBytes + int (length (Tx memTx));
          newTotalGas = totalGas + gasWanted memTx
      in if maxBytes > -1 \<and> dataSize > maxBytes then []
         else if maxGas > -1 \<and> newTotalGas > maxGas then []
         else Tx memTx # reap rest maxBytes maxGas dataSize newTotalGas)"

definition ReapMaxBytesMaxGas :: "CListMempool \<Rightarrow> int \<Rightarrow> int \<Rightarrow> bytes list" where
  "ReapMaxBytesMaxGas mem maxBytes maxGas = reap mem maxBytes maxGas 0 0"

section \<open>Data availability client (packages da, da/mock, da/registry)\<close>

text \<open>
  \<open>da.DataAvailabilityLayerClient\<close> is a Go interface with the four methods the mock
  implements. An interface value is a method table together with the receiver it acts
  on; a method that mutates its receiver returns the new receiver. \<open>Inl\<close> is a non-nil
  error (or a panic), in which case the caller abandons the client.
\<close>

datatype Logger = Logger

datatype StatusCode = StatusSuccess | StatusError

record ResultSubmitBlock =
  Code :: StatusCode
  Message :: string

record 'd DataAvailabilityLayerClient =
  Init :: "bytes \<Rightarrow> Logger option \<Rightarrow> 'd \<Rightarrow> error + 'd"
  Start :: "'d \<Rightarrow> error + 'd"
  Stop :: "'d \<Rightarrow> error + 'd"
  SubmitBlock :: "Block \<Rightarrow> 'd \<Rightarrow> ResultSubmitBlock \<times> 'd"
  receiver :: 'd

text \<open>The mock client: \<open>logger\<close> is nil (\<open>None\<close>) until \<open>Init\<close> stores one.\<close>

record MockDataAvailabilityLayerClient =
  logger :: "Logger option"
  Blocks :: "Block list"

definition Mock_Init ::
  "bytes \<Rightarrow> Logger option \<Rightarrow> MockDataAvailabilityLayerClient \<Rightarrow> error + MockDataAvailabilityLayerClient" where
  "Mock_Init config lg m = Inr (m\<lparr>logger := lg\<rparr>)"

definition Mock_Start :: "MockDataAvailabilityLayerClient \<Rightarrow> error + MockDataAvailabilityLayerClient" where
  "Mock_Start m =
     (case logger m of
        None \<Rightarrow> Inl (Panic ''nil pointer dereference'')
      | Some lg \<Rightarrow> Inr m)"

definition Mock_Stop :: "MockDataAvailabilityLayerClient \<Rightarrow> error + MockDataAvailabilityLayerClient" where
  "Mock_Stop m =
     (case logger m of
        None \<Rightarrow> Inl (Panic ''nil pointer dereference'')
      | Some lg \<Rightarrow> Inr m)"

definition Mock_SubmitBlock ::
  "Block \<Rightarrow> MockDataAvailabilityLayerClient \<Rightarrow> ResultSubmitBlock \<times> MockDataAvailabilityLayerClient" where
  "Mock_SubmitBlock block m =
     (\<lparr>Code = StatusSuccess, Message = ''OK''\<rparr>, m\<lparr>Blocks := Blocks m @ [block]\<rparr>)"

definition mock_client :: "MockDataAvailabilityLayerClient DataAvailabilityLayerClient" where
  "mock_client =
     \<lparr>Init = Mock_Init, Start = Mock_Start, Stop = Mock_Stop, SubmitBlock = Mock_SubmitBlock,
      receiver = \<lparr>logger = None, Blocks = []\<rparr>\<rparr>"

text \<open>
  Modelled from the spec: the registry (\<open>registry.GetClient\<close>) is not part of the sources
  at hand. Section 4.1: a mapping from backend name to a zero-value client of that
  backend; \<open>GetClient(name)\<close> returns nil (\<open>None\<close>) if the name is unknown.
\<close>

type_synonym 'd registry = "string \<rightharpoonup> 'd DataAvailabilityLayerClient"

definition GetClient :: "'d registry \<Rightarrow> string \<Rightarrow> 'd DataAvailabilityLayerClient option" where
  "GetClient reg name = reg name"

section \<open>Node (package node)\<close>

record NodeConfig =
  Aggregator :: bool
  BlockTime :: nat
  DALayer :: string
  DAConfig :: bytes

text \<open>
  Of \<open>config.NodeConfig\<close> and \<open>Node\<close>, the fields that the functions below read or
  write. The event bus, the proxy application, the genesis document, the P2P client,
  the peer identifiers, the incoming channel and the context are used only through
  the calls recorded as effects further down.
\<close>

record 'd Node =
  conf :: NodeConfig
  Mempool :: CListMempool
  BlockStore :: BlockStore
  dalc :: "'d DataAvailabilityLayerClient"

text \<open>
  \<open>makeBlock\<close>: \<open>now\<close> is the value of \<open>uint64(time.Now().UnixNano())\<close> at the call.
  \<open>height - 1\<close> is unsigned 64-bit subtraction and wraps at 0.
\<close>

definition makeBlock :: "hasher \<Rightarrow> 64 word \<Rightarrow> 'd Node \<Rightarrow> 64 word \<Rightarrow> bytes list \<Rightarrow> error + Block" where
  "makeBlock H now n height txs =
     (case LoadBlock (BlockStore n) (height - 1) of
        Inl err \<Rightarrow> Inl err
      | Inr lastBlock \<Rightarrow>
          (case Hash_Header H (Header lastBlock) of
             Inl err \<Rightarrow> Inl err
           | Inr lastHash \<Rightarrow>
               (let block =
                  \<lparr>Header =
                     \<lparr>Version = \<lparr>Block = 0, App = 0\<rparr>,
                      NamespaceID = zero8,
                      Height = height,
                      Time = now,
                      LastHeaderHash = lastHash,
                      LastCommitHash = zero32,
                      DataHash = zero32,
                      ConsensusHash = zero32,
                      AppHash = zero32,
                      LastResultsHash = zero32,
                      ProposerAddress = []\<rparr>,
                   Data =
                     \<lparr>Txs = txs,
                      IntermediateStateRoots = \<lparr>RawRootsList = []\<rparr>,
                      Data.Evidence = \<lparr>EvidenceData.Evidence = []\<rparr>\<rparr>\<rparr>
                in case Hash_Data H (Data block) of
                     Inl err \<Rightarrow> Inl err
                   | Inr dataHash \<Rightarrow> Inr (block\<lparr>Header := (Header block)\<lparr>DataHash := dataHash\<rparr>\<rparr>))))"

definition broadcastBlock :: "'d Node \<Rightarrow> Block \<Rightarrow> error option \<times> 'd Node" where
  "broadcastBlock n block = (None, n)"

text \<open>
  \<open>publishBlock\<close> returns the error (\<open>None\<close> is nil) and the node as the call leaves it.
  Logging is not modelled.
\<close>

definition maxBlockSize :: int where
  "maxBlockSize = 32 * 1024"

definition publishBlock :: "hasher \<Rightarrow> 64 word \<Rightarrow> 'd Node \<Rightarrow> error option \<times> 'd Node" where
  "publishBlock H now n =
     (let txs = ReapMaxBytesMaxGas (Mempool n) maxBlockSize (-1)
      in if length txs = 0 then (None, n)
         else case makeBlock H now n (store_Height (BlockStore n) + 1) txs of
                Inl err \<Rightarrow> (Some err, n)
              | Inr block \<Rightarrow>
                  (case SaveBlock (BlockStore n) block of
                     Inl err \<Rightarrow> (Some err, n)
                   | Inr store' \<Rightarrow> broadcastBlock (n\<lparr>BlockStore := store'\<rparr>) block))"

text \<open>
  \<open>aggregationLoop\<close>: each iteration blocks in a \<open>select\<close> on the cancellation signal
  and the ticker. The outcomes of successive selects are given as a list of events; a
  tick carries the clock reading taken inside \<open>makeBlock\<close> and the content of the
  mempool at that moment (the ingestion loop fills it concurrently). An error of
  \<open>publishBlock\<close> is logged and the loop goes on. The result is the node and whether the
  loop has returned; an exhausted event list leaves the loop blocked in its select.
\<close>

datatype agg_event = CtxDone | Tick "64 word" CListMempool

fun aggregationLoop :: "hasher \<Rightarrow> agg_event list \<Rightarrow> 'd Node \<Rightarrow> 'd Node \<times> bool" where
  "aggregationLoop H [] n = (n, False)"
| "aggregationLoop H (CtxDone # evs) n = (n, True)"
| "aggregationLoop H (Tick now mem # evs) n =
     aggregationLoop H evs (snd (publishBlock H now (n\<lparr>Mempool := mem\<rparr>)))"

subsection \<open>Start-up\<close>

text \<open>
  Calls that leave the node (into the proxy application, the event bus, the P2P client,
  the registry, the DA client) and goroutine launches are recorded, in program order,
  in a list of effects. The P2P client, the proxy application and the event bus are not
  part of the sources at hand: the error each of their calls returns is a parameter
  (\<open>None\<close> is nil).
\<close>

datatype effect =
    proxyApp_Start_called
  | eventBus_Start_called
  | p2p_NewClient_called
  | registry_GetClient_called string
  | dalc_Init_called
  | dalc_Start_called
  | dalc_Stop_called
  | dalc_SubmitBlock_called
  | P2P_Start_called
  | go_mempoolReadLoop
  | go_mempoolPublishLoop
  | go_aggregationLoop
  | P2P_SetTxHandler_called

record collaborators =
  proxyApp_Start :: "error option"
  eventBus_Start :: "error option"
  p2p_NewClient :: "error option"
  P2P_Start :: "error option"

definition is_dalc_call :: "effect \<Rightarrow> bool" where
  "is_dalc_call e =
     (e = dalc_Init_called \<or> e = dalc_Start_called \<or> e = dalc_Stop_called
      \<or> e = dalc_SubmitBlock_called)"

text \<open>
  \<open>NewNode\<close> returns \<open>Inl err\<close> for \<open>(nil, err)\<close> and \<open>Inr node\<close> for \<open>(node, nil)\<close>.
  A panic inside \<open>Init\<close> is not an error value and is passed on unwrapped.
\<close>

definition NewNode ::
  "collaborators \<Rightarrow> 'd registry \<Rightarrow> NodeConfig \<Rightarrow> Logger \<Rightarrow> (error + 'd Node) \<times> effect list" where
  "NewNode W reg cfg lg =
     (case proxyApp_Start W of
        Some err \<Rightarrow>
          (Inl (Wrapped ''error starting proxy app connections'' err), [proxyApp_Start_called])
      | None \<Rightarrow>
     (case eventBus_Start W of
        Some err \<Rightarrow> (Inl err, [proxyApp_Start_called, eventBus_Start_called])
      | None \<Rightarrow>
     (case p2p_NewClient W of
        Some err \<Rightarrow>
          (Inl err, [proxyApp_Start_called, eventBus_Start_called, p2p_NewClient_called])
      | None \<Rightarrow>
     (case GetClient reg (DALayer cfg) of
        None \<Rightarrow>
          (Inl (Error (''couldn't get data availability client named '' @ [CHR 0x27] @ DALayer cfg
                       @ [CHR 0x27])),
           [proxyApp_Start_called, eventBus_Start_called, p2p_NewClient_called,
            registry_GetClient_called (DALayer cfg)])
      | Some client \<Rightarrow>
     (case Init client (DAConfig cfg) (Some lg) (receiver client) of
        Inl err \<Rightarrow>
          (Inl (case err of
                  Panic msg \<Rightarrow> Panic msg
                | _ \<Rightarrow> Wrapped ''data availability layer client initialization error'' err),
           [proxyApp_Start_called, eventBus_Start_called, p2p_NewClient_called,
            registry_GetClient_called (DALayer cfg), dalc_Init_called])
      | Inr d \<Rightarrow>
          (Inr \<lparr>conf = cfg, Mempool = [], BlockStore = NewBlockStore,
                dalc = client\<lparr>receiver := d\<rparr>\<rparr>,
           [proxyApp_Start_called, eventBus_Start_called, p2p_NewClient_called,
            registry_GetClient_called (DALayer cfg), dalc_Init_called]))))))"

text \<open>
  \<open>OnStart\<close> returns the error, the node, and the effects in program order.
\<close>

definition OnStart :: "collaborators \<Rightarrow> 'd Node \<Rightarrow> error option \<times> 'd Node \<times> effect list" where
  "OnStart W n =
     (case P2P_Start W of
        Some err \<Rightarrow> (Some (Wrapped ''error while starting P2P client'' err), n, [P2P_Start_called])
      | None \<Rightarrow>
     (case Start (dalc n) (receiver (dalc n)) of
        Inl err \<Rightarrow>
          (Some (case err of
                   Panic msg \<Rightarrow> Panic msg
                 | _ \<Rightarrow> Wrapped ''error while starting data availability layer client'' err),
           n, [P2P_Start_called, dalc_Start_called])
      | Inr d \<Rightarrow>
          (None, n\<lparr>dalc := (dalc n)\<lparr>receiver := d\<rparr>\<rparr>,
           [P2P_Start_called, dalc_Start_called, go_mempoolReadLoop, go_mempoolPublishLoop]
           @ (if Aggregator (conf n) then [go_aggregationLoop] else [])
           @ [P2P_SetTxHandler_called])))"

subsection \<open>Concrete inputs\<close>

text \<open>
  The transaction \<open>"hello"\<close>, a digest that is easy to evaluate, a node as \<open>NewNode\<close>
  leaves it (empty block store, mock DA client) with \<open>"hello"\<close> pooled, and a node whose
  block store already holds a block at height 5.
\<close>

definition hello :: bytes where
  "hello = [104, 101, 108, 108, 111]"

definition toy_hasher :: hasher where
  "toy_hasher =
     \<lparr>digestHeader = (\<lambda>h. replicate 32 (ucast (Height h))),
      digestData = (\<lambda>d. replicate 32 (of_nat (length (Txs d))))\<rparr>"

definition hello_pool :: CListMempool where
  "hello_pool = [\<lparr>Tx = hello, gasWanted = 1\<rparr>]"

definition mock_config :: NodeConfig where
  "mock_config = \<lparr>Aggregator = True, BlockTime = 1000, DALayer = ''mock'', DAConfig = []\<rparr>"

definition started_mock :: "MockDataAvailabilityLayerClient DataAvailabilityLayerClient" where
  "started_mock = mock_client\<lparr>receiver := \<lparr>logger = Some Logger, Blocks = []\<rparr>\<rparr>"

definition fresh_node :: "MockDataAvailabilityLayerClient Node" where
  "fresh_node =
     \<lparr>conf = mock_config, Mempool = hello_pool, BlockStore = NewBlockStore, dalc = started_mock\<rparr>"

definition block5 :: Block where
  "block5 =
     \<lparr>Header =
        \<lparr>Version = \<lparr>Block = 0, App = 0\<rparr>, NamespaceID = zero8, Height = 5, Time = 77,
         LastHeaderHash = zero32, LastCommitHash = zero32, DataHash = zero32,
         ConsensusHash = zero32, AppHash = zero32, LastResultsHash = zero32,
         ProposerAddress = []\<rparr>,
      Data = \<lparr>Txs = [], IntermediateStateRoots = \<lparr>RawRootsList = []\<rparr>,
              Data.Evidence = \<lparr>EvidenceData.Evidence = []\<rparr>\<rparr>\<rparr>"

definition store5 :: BlockStore where
  "store5 = \<lparr>blocks = [5 \<mapsto> block5], lastSaved = 5\<rparr>"

definition node5 :: "MockDataAvailabilityLayerClient Node" where
  "node5 = \<lparr>conf = mock_config, Mempool = hello_pool, BlockStore = store5, dalc = started_mock\<rparr>"

text \<open>
  Collaborators that all start without error, a registry that knows the mock backend
  only, a configuration naming another backend, and a node that is not an aggregator.
\<close>

definition ok_world :: collaborators where
  "ok_world =
     \<lparr>proxyApp_Start = None, eventBus_Start = None, p2p_NewClient = None, P2P_Start = None\<rparr>"

definition mock_registry :: "MockDataAvailabilityLayerClient registry" where
  "mock_registry = [''mock'' \<mapsto> mock_client]"

definition celestia_config :: NodeConfig where
  "celestia_config =
     \<lparr>Aggregator = True, BlockTime = 1000, DALayer = ''celestia'', DAConfig = []\<rparr>"

definition follower_node :: "MockDataAvailabilityLayerClient Node" where
  "follower_node = fresh_node\<lparr>conf := mock_config\<lparr>Aggregator := False\<rparr>\<rparr>"

section \<open>Chain state (package state)\<close>

text \<open>
  \<open>NewFromGenesisDoc\<close> works on types of the consensus library
  (\<open>types.GenesisDoc\<close>, \<open>types.ValidatorSet\<close>, \<open>tmproto.ConsensusParams\<close>), which is a
  dependency and not part of the sources at hand. The genesis document and the state
  are records with the fields the function reads and writes; validators, validator
  sets and consensus parameters are type parameters \<open>'v\<close>, \<open>'vs\<close>, \<open>'cp\<close>, and the
  library functions the code calls are the fields of a record \<open>tmtypes\<close>.
  A pointer or slice that the code compares with nil or dereferences is an \<open>option\<close>.
  \<open>int64\<close> heights are 64-bit words; \<open>time.Time\<close> is an integer.
\<close>

record GenesisValidator =
  Address :: bytes
  PubKey :: bytes
  Power :: "64 word"
  Name :: string

record 'cp GenesisDoc =
  GenesisTime :: int
  ChainID :: string
  InitialHeight :: "64 word"
  ConsensusParams :: "'cp option"
  Validators :: "GenesisValidator list option"
  AppHash :: bytes
  AppState :: bytes

record Consensus =
  Block :: "64 word"
  App :: "64 word"

record tmVersion =
  Consensus :: Consensus
  Software :: string

record PartSetHeader =
  Total :: "32 word"
  Hash :: bytes

record BlockID =
  Hash :: bytes
  PartSetHeader :: PartSetHeader

record ('vs, 'cp) State =
  Version :: tmVersion
  ChainID :: string
  InitialHeight :: "64 word"
  LastBlockHeight :: "64 word"
  LastBlockID :: BlockID
  LastBlockTime :: int
  NextValidators :: 'vs
  Validators :: 'vs
  LastValidators :: 'vs
  LastHeightValidatorsChanged :: "64 word"
  ConsensusParams :: 'cp
  LastHeightConsensusParamsChanged :: "64 word"
  LastResultsHash :: bytes
  AppHash :: bytes

text \<open>
  The library: \<open>ValidateAndComplete\<close> has a pointer receiver and completes the genesis
  document in place, so it returns the error together with the document as the call
  leaves it. \<open>NewValidatorSet\<close> takes a slice that may be nil.
\<close>

record ('v, 'vs, 'cp) tmtypes =
  ValidateAndComplete :: "'cp GenesisDoc \<Rightarrow> error option \<times> 'cp GenesisDoc"
  NewValidator :: "bytes \<Rightarrow> 64 word \<Rightarrow> 'v"
  NewValidatorSet :: "'v list option \<Rightarrow> 'vs"
  CopyIncrementProposerPriority :: "'vs \<Rightarrow> 32 word \<Rightarrow> 'vs"
  BlockProtocol :: "64 word"
  TMCoreSemVer :: string

definition InitStateVersion :: "('v, 'vs, 'cp) tmtypes \<Rightarrow> tmVersion" where
  "InitStateVersion L =
     \<lparr>Consensus = \<lparr>Consensus.Block = BlockProtocol L, Consensus.App = 0\<rparr>,
      Software = TMCoreSemVer L\<rparr>"

text \<open>
  \<open>NewFromGenesisDoc\<close> returns \<open>Inl err\<close> for \<open>(State{}, err)\<close> and \<open>Inr state\<close> for
  \<open>(state, nil)\<close>, together with the genesis document as the call leaves it.
  \<open>make([]*types.Validator, n)\<close> is never nil, also for \<open>n = 0\<close>. Dereferencing a nil
  \<open>genDoc.ConsensusParams\<close> panics. \<open>LastResultsHash\<close> is not set: it is nil.
\<close>

definition NewFromGenesisDoc ::
  "('v, 'vs, 'cp) tmtypes \<Rightarrow> 'cp GenesisDoc \<Rightarrow> (error + ('vs, 'cp) State) \<times> 'cp GenesisDoc" where
  "NewFromGenesisDoc L genDoc0 =
     (let (err, genDoc) = ValidateAndComplete L genDoc0
      in case err of
           Some e \<Rightarrow> (Inl (Wrapped ''error in genesis doc'' e), genDoc)
         | None \<Rightarrow>
             (let (validatorSet, nextValidatorSet) =
                    (case GenesisDoc.Validators genDoc of
                       None \<Rightarrow> (NewValidatorSet L None, NewValidatorSet L None)
                     | Some vals \<Rightarrow>
                         (let validators = map (\<lambda>val. NewValidator L (PubKey val) (Power val)) vals
                          in (NewValidatorSet L (Some validators),
                              CopyIncrementProposerPriority L (NewValidatorSet L (Some validators)) 1)))
              in case GenesisDoc.ConsensusParams genDoc of
                   None \<Rightarrow> (Inl (Panic ''nil pointer dereference''), genDoc)
                 | Some params \<Rightarrow>
                     (Inr \<lparr>Version = InitStateVersion L,
                           ChainID = GenesisDoc.ChainID genDoc,
                           InitialHeight = GenesisDoc.InitialHeight genDoc,
                           LastBlockHeight = 0,
                           LastBlockID = \<lparr>BlockID.Hash = [],
                                          PartSetHeader = \<lparr>Total = 0, PartSetHeader.Hash = []\<rparr>\<rparr>,
                           LastBlockTime = GenesisTime genDoc,
                           NextValidators = nextValidatorSet,
                           Validators = validatorSet,
                           LastValidators = NewValidatorSet L None,
                           LastHeightValidatorsChanged = GenesisDoc.InitialHeight genDoc,
                           ConsensusParams = params,
                           LastHeightConsensusParamsChanged = GenesisDoc.InitialHeight genDoc,
                           LastResultsHash = [],
                           AppHash = GenesisDoc.AppHash genDoc\<rparr>,
                      genDoc)))"



subsection \<open>A small instance of the library\<close>

text \<open>
  A validator is its public key, its voting power and its proposer priority; a
  validator set is a list of validators; consensus parameters are a number. One round
  of priority increment adds each validator's voting power to its priority.
  Validation rejects an empty chain identifier and a validator without voting power,
  and fills in an initial height of 1 and default consensus parameters.
\<close>

type_synonym toy_validator = "bytes \<times> 64 word \<times> int"

definition toy_ValidateAndComplete :: "nat GenesisDoc \<Rightarrow> error option \<times> nat GenesisDoc" where
  "toy_ValidateAndComplete g =
     (if GenesisDoc.ChainID g = [] then
        (Some (Error ''genesis doc must include non-empty chain_id''), g)
      else if (\<exists>v \<in> set (case GenesisDoc.Validators g of None \<Rightarrow> [] | Some vs \<Rightarrow> vs). Power v = 0)
        then (Some (Error ''the genesis file cannot contain validators with no voting power''), g)
      else
        (None,
         g\<lparr>GenesisDoc.InitialHeight :=
              (if GenesisDoc.InitialHeight g = 0 then 1 else GenesisDoc.InitialHeight g),
           GenesisDoc.ConsensusParams :=
              (case GenesisDoc.ConsensusParams g of None \<Rightarrow> Some 7 | Some p \<Rightarrow> Some p)\<rparr>))"

definition toy_types :: "(toy_validator, toy_validator list, nat) tmtypes" where
  "toy_types =
     \<lparr>ValidateAndComplete = toy_ValidateAndComplete,
      NewValidator = (\<lambda>pk power. (pk, power, 0)),
      NewValidatorSet = (\<lambda>vals. case vals of None \<Rightarrow> [] | Some vs \<Rightarrow> vs),
      CopyIncrementProposerPriority =
        (\<lambda>s k. map (\<lambda>(pk, power, prio). (pk, power, prio + uint k * uint power)) s),
      BlockProtocol = 11,
      TMCoreSemVer = ''0.34.0''\<rparr>"

definition genesis2 :: "nat GenesisDoc" where
  "genesis2 =
     \<lparr>GenesisTime = 1600000000, ChainID = ''test-chain'', InitialHeight = 0,
      ConsensusParams = None,
      Validators = Some [\<lparr>Address = [1], PubKey = [1, 1], Power = 10, Name = ''a''\<rparr>,
                         \<lparr>Address = [2], PubKey = [2, 2], Power = 20, Name = ''b''\<rparr>],
      AppHash = [9, 9], AppState = []\<rparr>"



section \<open>Gossip loop (\<open>mempoolPublishLoop\<close>)\<close>

text \<open>
  The loop never returns by itself: it blocks in two \<open>select\<close> statements and calls
  \<open>GossipTx\<close> in between. It is modelled as a machine that takes one step per
  interaction with its environment. What the loop can see at a step is an
  \<open>observation\<close>: the transactions in the mempool in arrival order, the error
  \<open>GossipTx\<close> returns if it is called at this step, whether the context is cancelled,
  and which case a \<open>select\<close> takes when both of its channels are ready (Go picks one at
  random).

  Modelled from the spec: the mempool's list (\<open>clist.CList\<close>, \<open>TxsFront\<close>,
  \<open>TxsWaitChan\<close>, \<open>Next\<close>, \<open>NextWaitChan\<close>) is not part of the sources at hand.
  Section 4.2: one can obtain the first entry, advance to each successor, and wait
  until the pool is non-empty or until an entry has a successor. An element is its
  position in the list together with its value; \<open>TxsFront\<close> is nil on an empty pool,
  \<open>Next\<close> is nil at the last element; the wait channels are ready when \<open>TxsFront\<close>,
  respectively \<open>Next\<close>, is not nil. Removal of entries is not modelled: nothing in the
  node removes a transaction from the pool.

  The control points of the loop are: blocked in the first select (\<open>next\<close> is nil),
  about to call \<open>GossipTx\<close> on \<open>next\<close>, blocked in the second select, returned, and
  crashed on a nil dereference. \<open>gossiped\<close> is a record of every \<open>GossipTx\<close> call:
  position, transaction, result.
\<close>

type_synonym CElement = "nat \<times> bytes"

definition TxsFront :: "bytes list \<Rightarrow> CElement option" where
  "TxsFront txs = (case txs of [] \<Rightarrow> None | tx # rest \<Rightarrow> Some (0, tx))"

definition Next :: "bytes list \<Rightarrow> CElement \<Rightarrow> CElement option" where
  "Next txs e = (if Suc (fst e) < length txs then Some (Suc (fst e), txs ! Suc (fst e)) else None)"

datatype location = AtTxsWait | AtSend | AtNextWait | Returned | Crashed

record publish_state =
  at :: location
  next_elem :: "CElement option"
  gossiped :: "(nat \<times> bytes \<times> error option) list"

record observation =
  pool :: "bytes list"
  gossip_result :: "error option"
  ctx_done :: bool
  select_done :: bool

definition publish_start :: publish_state where
  "publish_start = \<lparr>at = AtTxsWait, next_elem = None, gossiped = []\<rparr>"

definition publish_step :: "observation \<Rightarrow> publish_state \<Rightarrow> publish_state" where
  "publish_step ob s =
     (case at s of
        AtTxsWait \<Rightarrow>
          (if TxsFront (pool ob) \<noteq> None \<and> (\<not> ctx_done ob \<or> \<not> select_done ob) then
             (case TxsFront (pool ob) of
                Some e \<Rightarrow> s\<lparr>next_elem := Some e, at := AtSend\<rparr>
              | None \<Rightarrow> s\<lparr>next_elem := None, at := Crashed\<rparr>)
           else if ctx_done ob then s\<lparr>at := Returned\<rparr>
           else s)
      | AtSend \<Rightarrow>
          (case next_elem s of
             None \<Rightarrow> s\<lparr>at := Crashed\<rparr>
           | Some e \<Rightarrow>
               (case gossip_result ob of
                  Some err \<Rightarrow> s\<lparr>gossiped := gossiped s @ [(fst e, snd e, Some err)]\<rparr>
                | None \<Rightarrow>
                    (case Next (pool ob) e of
                       None \<Rightarrow> s\<lparr>gossiped := gossiped s @ [(fst e, snd e, None)], at := AtNextWait\<rparr>
                     | Some nx \<Rightarrow>
                         s\<lparr>gossiped := gossiped s @ [(fst e, snd e, None)], next_elem := Some nx\<rparr>)))
      | AtNextWait \<Rightarrow>
          (case next_elem s of
             None \<Rightarrow> s\<lparr>at := Crashed\<rparr>
           | Some e \<Rightarrow>
               (if Next (pool ob) e \<noteq> None \<and> (\<not> ctx_done ob \<or> \<not> select_done ob) then
                  (case Next (pool ob) e of
                     Some nx \<Rightarrow> s\<lparr>next_elem := Some nx, at := AtSend\<rparr>
                   | None \<Rightarrow> s\<lparr>next_elem := None, at := AtTxsWait\<rparr>)
                else if ctx_done ob then s\<lparr>at := Returned\<rparr>
                else s))
      | Returned \<Rightarrow> s
      | Crashed \<Rightarrow> s)"

text \<open>
  \<open>mempoolPublishLoop E k\<close> is the loop after its first \<open>k\<close> steps, when the
  environment shows it \<open>E 0\<close>, \<open>E 1\<close>, ... It starts with \<open>next\<close> nil.
\<close>

primrec mempoolPublishLoop :: "(nat \<Rightarrow> observation) \<Rightarrow> nat \<Rightarrow> publish_state" where
  "mempoolPublishLoop E 0 = publish_start"
| "mempoolPublishLoop E (Suc k) = publish_step (E k) (mempoolPublishLoop E k)"

text \<open>
  Assumptions on the environment used below: the pool only grows at its tail; the
  context is never cancelled; \<open>GossipTx\<close> does not fail forever.
\<close>

definition append_only :: "(nat \<Rightarrow> observation) \<Rightarrow> bool" where
  "append_only E = (\<forall>k. \<exists>new. pool (E (Suc k)) = pool (E k) @ new)"

definition never_cancelled :: "(nat \<Rightarrow> observation) \<Rightarrow> bool" where
  "never_cancelled E = (\<forall>k. \<not> ctx_done (E k))"

definition gossip_recovers :: "(nat \<Rightarrow> observation) \<Rightarrow> bool" where
  "gossip_recovers E = (\<forall>k. \<exists>j\<ge>k. gossip_result (E j) = None)"

text \<open>The number of pool positions the cursor has left behind.\<close>

definition passed :: "publish_state \<Rightarrow> nat" where
  "passed s =
     (case (at s, next_elem s) of
        (AtSend, Some e) \<Rightarrow> fst e
      | (AtNextWait, Some e) \<Rightarrow> Suc (fst e)
      | _ \<Rightarrow> 0)"

text \<open>
  What holds of the loop at every step, relative to the pool it is about to observe:
  \<open>next\<close> is nil while it waits for transactions and an element of the pool
  otherwise, it has not crashed, and every position the cursor has left behind has a
  successful \<open>GossipTx\<close> call on record.
\<close>

definition publish_inv :: "bytes list \<Rightarrow> publish_state \<Rightarrow> bool" where
  "publish_inv txs s =
     ((at s = AtTxsWait \<longrightarrow> next_elem s = None)
      \<and> (at s = AtSend \<or> at s = AtNextWait \<longrightarrow>
           (\<exists>i<length txs. next_elem s = Some (i, txs ! i)))
      \<and> at s \<noteq> Crashed
      \<and> (\<forall>j<passed s. (j, txs ! j, None) \<in> set (gossiped s)))"

text \<open>
  Three environments: one where the network is down from the start and the context is
  cancelled after the first step; one where two transactions are pooled, the network
  is down for good and the context is never cancelled; and one where \<open>"hello"\<close> is
  pooled, the first two sends fail and later ones succeed.
\<close>

definition stuck_env :: "nat \<Rightarrow> observation" where
  "stuck_env k =
     \<lparr>pool = [hello], gossip_result = Some (Error ''network unreachable''),
      ctx_done = (0 < k), select_done = True\<rparr>"

definition world :: bytes where
  "world = [119, 111, 114, 108, 100]"

definition down_env :: "nat \<Rightarrow> observation" where
  "down_env k =
     \<lparr>pool = [hello, world], gossip_result = Some (Error ''network unreachable''),
      ctx_done = False, select_done = False\<rparr>"

definition flaky_env :: "nat \<Rightarrow> observation" where
  "flaky_env k =
     \<lparr>pool = [hello], gossip_result = (if k < 3 then Some (Error ''timeout'') else None),
      ctx_done = False, select_done = False\<rparr>"

section \<open>Properties\<close>

subsection \<open>Block production\<close>

lemma reap_hello: "ReapMaxBytesMaxGas hello_pool maxBlockSize (-1) = [hello]"
  by (simp add: ReapMaxBytesMaxGas_def hello_pool_def maxBlockSize_def hello_def)

text \<open>
  C3. On a tick at which \<open>ReapMaxBytesMaxGas\<close> returns an empty sequence (in
  particular when the mempool is empty), \<open>publishBlock\<close> returns nil and leaves the
  node, hence the block store and its height, as they were: no block is saved.
\<close>

theorem publishBlock_idle:
  assumes "ReapMaxBytesMaxGas (Mempool n) maxBlockSize (-1) = []"
  shows "fst (publishBlock H now n) = None
       \<and> snd (publishBlock H now n) = n
       \<and> blocks (BlockStore (snd (publishBlock H now n))) = blocks (BlockStore n)
       \<and> store_Height (BlockStore (snd (publishBlock H now n))) = store_Height (BlockStore n)"
  using assms by (simp add: publishBlock_def)

theorem publishBlock_idle_witness:
  "ReapMaxBytesMaxGas (Mempool (fresh_node\<lparr>Mempool := []\<rparr>)) maxBlockSize (-1) = []
   \<and> fst (publishBlock toy_hasher 99 (fresh_node\<lparr>Mempool := []\<rparr>)) = None
   \<and> store_Height (BlockStore (snd (publishBlock toy_hasher 99 (node5\<lparr>Mempool := []\<rparr>)))) = 5"
proof -
  have a: "ReapMaxBytesMaxGas (Mempool (fresh_node\<lparr>Mempool := []\<rparr>)) maxBlockSize (-1) = []"
    by (simp add: ReapMaxBytesMaxGas_def)
  have b: "ReapMaxBytesMaxGas (Mempool (node5\<lparr>Mempool := []\<rparr>)) maxBlockSize (-1) = []"
    by (simp add: ReapMaxBytesMaxGas_def)
  show ?thesis
    using a publishBlock_idle [OF a, of toy_hasher 99] publishBlock_idle [OF b, of toy_hasher 99]
    by (simp add: node5_def store5_def store_Height_def)
qed

text \<open>
  C4. For a target height \<open>h \<ge> 1\<close>: if the block store holds no block at \<open>h - 1\<close>,
  \<open>makeBlock\<close> fails (with the store's not-found error); otherwise it returns a block
  whose header has height \<open>h\<close>, \<open>LastHeaderHash\<close> the digest of the header of block
  \<open>h - 1\<close>, zero \<open>LastCommitHash\<close>, \<open>ConsensusHash\<close>, \<open>AppHash\<close> and
  \<open>LastResultsHash\<close>, an empty proposer address, the given transactions as data, and
  \<open>DataHash\<close> the digest of that data.
\<close>

theorem makeBlock_spec:
  assumes "1 \<le> h"
  shows "(blocks (BlockStore n) (h - 1) = None \<longrightarrow> makeBlock H now n h txs = Inl (NotFound (h - 1)))
       \<and> (\<forall>lastBlock. blocks (BlockStore n) (h - 1) = Some lastBlock \<longrightarrow>
            (\<exists>b. makeBlock H now n h txs = Inr b
               \<and> Height (Header b) = h
               \<and> LastHeaderHash (Header b) = digestHeader H (Header lastBlock)
               \<and> LastCommitHash (Header b) = zero32
               \<and> ConsensusHash (Header b) = zero32
               \<and> Header.AppHash (Header b) = zero32
               \<and> Header.LastResultsHash (Header b) = zero32
               \<and> ProposerAddress (Header b) = []
               \<and> Txs (Data b) = txs
               \<and> DataHash (Header b) = digestData H (Data b)))"
  by (simp add: makeBlock_def LoadBlock_def Hash_Header_def Hash_Data_def Let_def)

theorem makeBlock_spec_witness:
  "(1::64 word) \<le> 6 \<and> blocks (BlockStore node5) (6 - 1) = Some block5
   \<and> (\<exists>b. makeBlock toy_hasher 99 node5 6 [hello] = Inr b \<and> Height (Header b) = 6
          \<and> LastHeaderHash (Header b) = replicate 32 5
          \<and> DataHash (Header b) = replicate 32 1)
   \<and> blocks (BlockStore fresh_node) (1 - 1) = None
   \<and> (\<exists>err. makeBlock toy_hasher 99 fresh_node 1 [hello] = Inl err)"
proof -
  have h6: "(1::64 word) \<le> 6" by simp
  have h1: "(1::64 word) \<le> 1" by simp
  have s5: "blocks (BlockStore node5) (6 - 1) = Some block5"
    by (simp add: node5_def store5_def)
  have s0: "blocks (BlockStore fresh_node) (1 - 1) = None"
    by (simp add: fresh_node_def NewBlockStore_def)
  from makeBlock_spec [OF h6, of node5 toy_hasher 99 "[hello]"] s5
  obtain b where b: "makeBlock toy_hasher 99 node5 6 [hello] = Inr b" "Height (Header b) = 6"
    "LastHeaderHash (Header b) = digestHeader toy_hasher (Header block5)"
    "Txs (Data b) = [hello]"
    "DataHash (Header b) = digestData toy_hasher (Data b)"
    by auto
  have "LastHeaderHash (Header b) = replicate 32 5"
    using b(3) by (simp add: toy_hasher_def block5_def)
  moreover have "DataHash (Header b) = replicate 32 1"
    using b(4,5) by (simp add: toy_hasher_def)
  moreover from makeBlock_spec [OF h1, of fresh_node toy_hasher 99 "[hello]"] s0
  have "\<exists>err. makeBlock toy_hasher 99 fresh_node 1 [hello] = Inl err" by simp
  ultimately show ?thesis using h6 s5 s0 b(1,2) by simp
qed

lemma publishBlock_keeps_empty_store:
  assumes "blocks (BlockStore n) = Map.empty" "store_Height (BlockStore n) = 0"
  shows "snd (publishBlock H now n) = n"
  using assms
  by (simp add: publishBlock_def makeBlock_def LoadBlock_def Let_def)

lemma aggregationLoop_keeps_empty_store:
  "blocks (BlockStore n) = Map.empty \<Longrightarrow> store_Height (BlockStore n) = 0 \<Longrightarrow>
   BlockStore (fst (aggregationLoop H evs n)) = BlockStore n"
proof (induction H evs n rule: aggregationLoop.induct)
  case (1 H n)
  then show ?case by simp
next
  case (2 H evs n)
  then show ?case by simp
next
  case (3 H now mem evs n)
  let ?m = "n\<lparr>Mempool := mem\<rparr>"
  have e: "blocks (BlockStore ?m) = Map.empty" "store_Height (BlockStore ?m) = 0"
    using 3 by simp_all
  have s: "snd (publishBlock H now ?m) = ?m"
    by (rule publishBlock_keeps_empty_store [OF e])
  show ?case using 3 s by simp
qed

text \<open>
  C10. With an empty block store (no block saved, \<open>Height()\<close> = 0) and a non-empty
  reap, \<open>publishBlock\<close> asks \<open>makeBlock\<close> for height 1, which fails to load block 0:
  \<open>publishBlock\<close> returns that error and saves nothing. As a consequence the store is
  still empty after any sequence of ticks of the aggregation loop, whatever the mempool
  holds at each tick: no first block is ever produced from an empty store.
\<close>

theorem publishBlock_empty_store:
  assumes "blocks (BlockStore n) = Map.empty" and "store_Height (BlockStore n) = 0"
  shows "(ReapMaxBytesMaxGas (Mempool n) maxBlockSize (-1) \<noteq> [] \<longrightarrow>
            publishBlock H now n = (Some (NotFound 0), n))
       \<and> (\<forall>evs. BlockStore (fst (aggregationLoop H evs n)) = BlockStore n)"
  using assms aggregationLoop_keeps_empty_store [OF assms]
  by (simp add: publishBlock_def makeBlock_def LoadBlock_def Let_def)

theorem publishBlock_empty_store_witness:
  "blocks (BlockStore fresh_node) = Map.empty \<and> store_Height (BlockStore fresh_node) = 0
   \<and> ReapMaxBytesMaxGas (Mempool fresh_node) maxBlockSize (-1) \<noteq> []
   \<and> publishBlock toy_hasher 99 fresh_node = (Some (NotFound 0), fresh_node)
   \<and> BlockStore (fst (aggregationLoop toy_hasher [Tick 1 hello_pool, Tick 2 hello_pool] fresh_node))
       = NewBlockStore"
proof -
  have a: "blocks (BlockStore fresh_node) = Map.empty"
    by (simp add: fresh_node_def NewBlockStore_def)
  have b: "store_Height (BlockStore fresh_node) = 0"
    by (simp add: fresh_node_def NewBlockStore_def store_Height_def)
  have c: "ReapMaxBytesMaxGas (Mempool fresh_node) maxBlockSize (-1) \<noteq> []"
    by (simp add: fresh_node_def reap_hello)
  have d: "BlockStore fresh_node = NewBlockStore" by (simp add: fresh_node_def)
  from publishBlock_empty_store [OF a b, of toy_hasher 99] c
  have e: "publishBlock toy_hasher 99 fresh_node = (Some (NotFound 0), fresh_node)"
    and f: "BlockStore (fst (aggregationLoop toy_hasher [Tick 1 hello_pool, Tick 2 hello_pool] fresh_node))
              = BlockStore fresh_node"
    by blast+
  show ?thesis
    using a b c d e f by (simp del: aggregationLoop.simps)
qed

text \<open>
  C1 (as the code has it). On a tick where the reaped batch is non-empty and the block
  store holds the block at its current height, \<open>publishBlock\<close> builds the next block
  from the reaped transactions, saves it under the next height and returns nil; the
  DA client is left exactly as it was: \<open>broadcastBlock\<close> does nothing and \<open>SubmitBlock\<close>
  is not called.
\<close>

theorem publishBlock_saves_without_submitting:
  assumes "ReapMaxBytesMaxGas (Mempool n) maxBlockSize (-1) \<noteq> []"
    and "blocks (BlockStore n) (store_Height (BlockStore n)) = Some lastBlock"
  shows "\<exists>b. makeBlock H now n (store_Height (BlockStore n) + 1)
               (ReapMaxBytesMaxGas (Mempool n) maxBlockSize (-1)) = Inr b
           \<and> publishBlock H now n =
               (None, n\<lparr>BlockStore := (BlockStore n)
                          \<lparr>blocks := (blocks (BlockStore n))(store_Height (BlockStore n) + 1 \<mapsto> b),
                           lastSaved := store_Height (BlockStore n) + 1\<rparr>\<rparr>)
           \<and> Height (Header b) = store_Height (BlockStore n) + 1
           \<and> Txs (Data b) = ReapMaxBytesMaxGas (Mempool n) maxBlockSize (-1)
           \<and> dalc (snd (publishBlock H now n)) = dalc n"
  using assms
  by (simp add: publishBlock_def makeBlock_def LoadBlock_def Hash_Header_def Hash_Data_def
      SaveBlock_def broadcastBlock_def Let_def)

theorem publishBlock_saves_without_submitting_witness:
  "ReapMaxBytesMaxGas (Mempool node5) maxBlockSize (-1) \<noteq> []
   \<and> blocks (BlockStore node5) (store_Height (BlockStore node5)) = Some block5
   \<and> fst (publishBlock toy_hasher 99 node5) = None
   \<and> store_Height (BlockStore (snd (publishBlock toy_hasher 99 node5))) = 6
   \<and> dalc (snd (publishBlock toy_hasher 99 node5)) = started_mock"
proof -
  have a: "ReapMaxBytesMaxGas (Mempool node5) maxBlockSize (-1) \<noteq> []"
    by (simp add: node5_def reap_hello)
  have b: "blocks (BlockStore node5) (store_Height (BlockStore node5)) = Some block5"
    by (simp add: node5_def store5_def store_Height_def)
  have c: "store_Height (BlockStore node5) = 5" "dalc node5 = started_mock"
    by (simp_all add: node5_def store5_def store_Height_def)
  from publishBlock_saves_without_submitting [OF a b, of toy_hasher 99]
  show ?thesis using a b c by (auto simp add: store_Height_def)
qed

text \<open>
  C1 as stated fails: with \<open>"hello"\<close> pooled and the mock DA client, a tick that builds
  and saves block 6 leaves the mock's list of submitted blocks empty; and on a node
  as \<open>NewNode\<close> creates it (empty store) the tick fails and the list is empty as well.
\<close>

theorem publishBlock_DA_submission_counterexample:
  "Mempool node5 = [\<lparr>Tx = hello, gasWanted = 1\<rparr>]
   \<and> fst (publishBlock toy_hasher 99 node5) = None
   \<and> map_option (\<lambda>b. Txs (Data b)) (blocks (BlockStore (snd (publishBlock toy_hasher 99 node5))) 6)
       = Some [hello]
   \<and> Blocks (receiver (dalc (snd (publishBlock toy_hasher 99 node5)))) = []
   \<and> Mempool fresh_node = [\<lparr>Tx = hello, gasWanted = 1\<rparr>]
   \<and> fst (publishBlock toy_hasher 99 fresh_node) = Some (NotFound 0)
   \<and> Blocks (receiver (dalc (snd (publishBlock toy_hasher 99 fresh_node)))) = []"
proof -
  have p: "Mempool node5 = [\<lparr>Tx = hello, gasWanted = 1\<rparr>]"
          "Mempool fresh_node = [\<lparr>Tx = hello, gasWanted = 1\<rparr>]"
    by (simp_all add: node5_def fresh_node_def hello_pool_def)
  have q: "fst (publishBlock toy_hasher 99 node5) = None
     \<and> map_option (\<lambda>b. Txs (Data b)) (blocks (BlockStore (snd (publishBlock toy_hasher 99 node5))) 6)
         = Some [hello]
     \<and> Blocks (receiver (dalc (snd (publishBlock toy_hasher 99 node5)))) = []"
    by (simp add: publishBlock_def reap_hello makeBlock_def LoadBlock_def Hash_Header_def
        Hash_Data_def SaveBlock_def broadcastBlock_def Let_def node5_def
        store5_def store_Height_def started_mock_def mock_client_def)
  have r: "fst (publishBlock toy_hasher 99 fresh_node) = Some (NotFound 0)
     \<and> Blocks (receiver (dalc (snd (publishBlock toy_hasher 99 fresh_node)))) = []"
    by (simp add: publishBlock_def reap_hello makeBlock_def LoadBlock_def Let_def fresh_node_def
        store_Height_def NewBlockStore_def started_mock_def mock_client_def)
  show ?thesis using p q r by simp
qed

subsection \<open>Start-up and construction\<close>

text \<open>
  C2 (as the code has it). A successful \<open>OnStart\<close> has started the P2P client and the
  DA client, then launched the ingestion loop and the gossip loop, then the aggregation
  loop if and only if the configuration marks the node as an aggregator, and then
  installed the transaction handler with the P2P client; nothing else.
\<close>

theorem OnStart_launches:
  assumes "fst (OnStart W n) = None"
  shows "snd (snd (OnStart W n)) =
           [P2P_Start_called, dalc_Start_called, go_mempoolReadLoop, go_mempoolPublishLoop]
           @ (if Aggregator (conf n) then [go_aggregationLoop] else [])
           @ [P2P_SetTxHandler_called]"
  using assms
  by (auto simp add: OnStart_def split: option.splits sum.splits error.splits)

theorem OnStart_launches_witness:
  "fst (OnStart ok_world fresh_node) = None
   \<and> snd (snd (OnStart ok_world fresh_node)) =
       [P2P_Start_called, dalc_Start_called, go_mempoolReadLoop, go_mempoolPublishLoop,
        go_aggregationLoop, P2P_SetTxHandler_called]"
proof -
  have a: "fst (OnStart ok_world fresh_node) = None"
    by (simp add: OnStart_def ok_world_def fresh_node_def started_mock_def mock_client_def
        Mock_Start_def)
  have b: "Aggregator (conf fresh_node)"
    by (simp add: fresh_node_def mock_config_def)
  show ?thesis using a b OnStart_launches [OF a] by simp
qed

text \<open>
  C2 as stated fails: on a node whose configuration has \<open>Aggregator = false\<close>,
  \<open>OnStart\<close> succeeds and launches two loops only; the aggregation loop is not among
  them.
\<close>

theorem OnStart_all_three_loops_counterexample:
  "\<not> Aggregator (conf follower_node)
   \<and> fst (OnStart ok_world follower_node) = None
   \<and> snd (snd (OnStart ok_world follower_node)) =
       [P2P_Start_called, dalc_Start_called, go_mempoolReadLoop, go_mempoolPublishLoop,
        P2P_SetTxHandler_called]
   \<and> go_aggregationLoop \<notin> set (snd (snd (OnStart ok_world follower_node)))"
  by (simp add: OnStart_def ok_world_def follower_node_def fresh_node_def started_mock_def
      mock_client_def Mock_Start_def mock_config_def)

text \<open>
  C7. When the configured DA backend name is not in the registry, \<open>GetClient\<close> returns
  nil; \<open>NewNode\<close> returns no node but an error, and none of its calls is a call of a DA
  client (\<open>Init\<close>, \<open>Start\<close>, \<open>Stop\<close>, \<open>SubmitBlock\<close>). Whenever \<open>NewNode\<close> gets as far as
  the registry lookup (proxy application, event bus and P2P client were set up without
  error), the error is the one that names the unknown backend.
\<close>

theorem NewNode_unknown_DA_backend:
  assumes "DALayer cfg \<notin> dom reg"
  shows "GetClient reg (DALayer cfg) = None
       \<and> (\<exists>err. fst (NewNode W reg cfg lg) = Inl err)
       \<and> (\<forall>e \<in> set (snd (NewNode W reg cfg lg)). \<not> is_dalc_call e)
       \<and> (proxyApp_Start W = None \<and> eventBus_Start W = None \<and> p2p_NewClient W = None \<longrightarrow>
            fst (NewNode W reg cfg lg) =
              Inl (Error (''couldn't get data availability client named '' @ [CHR 0x27]
                          @ DALayer cfg @ [CHR 0x27])))"
proof -
  have g: "GetClient reg (DALayer cfg) = None"
    using assms by (auto simp add: GetClient_def)
  show ?thesis
    using g by (auto simp add: NewNode_def is_dalc_call_def split: option.splits)
qed

theorem NewNode_unknown_DA_backend_witness:
  "DALayer celestia_config \<notin> dom mock_registry
   \<and> GetClient mock_registry (DALayer celestia_config) = None
   \<and> fst (NewNode ok_world mock_registry celestia_config Logger) =
       Inl (Error (''couldn't get data availability client named '' @ [CHR 0x27] @ ''celestia''
                   @ [CHR 0x27]))
   \<and> snd (NewNode ok_world mock_registry celestia_config Logger) =
       [proxyApp_Start_called, eventBus_Start_called, p2p_NewClient_called,
        registry_GetClient_called ''celestia'']"
proof -
  have a: "DALayer celestia_config \<notin> dom mock_registry"
    by (simp add: celestia_config_def mock_registry_def)
  have w: "proxyApp_Start ok_world = None \<and> eventBus_Start ok_world = None
           \<and> p2p_NewClient ok_world = None"
    by (simp add: ok_world_def)
  have t: "snd (NewNode ok_world mock_registry celestia_config Logger) =
       [proxyApp_Start_called, eventBus_Start_called, p2p_NewClient_called,
        registry_GetClient_called ''celestia'']"
    by (simp add: NewNode_def ok_world_def GetClient_def celestia_config_def mock_registry_def)
  from NewNode_unknown_DA_backend [OF a, of ok_world Logger] w
  have "GetClient mock_registry (DALayer celestia_config) = None"
    and "fst (NewNode ok_world mock_registry celestia_config Logger) =
         Inl (Error (''couldn't get data availability client named '' @ [CHR 0x27]
                          @ DALayer celestia_config @ [CHR 0x27]))"
    by blast+
  then show ?thesis using a t by (simp add: celestia_config_def)
qed

subsection \<open>Chain state seeding\<close>

lemma toy_complete2:
  "ValidateAndComplete toy_types genesis2 =
     (None, genesis2\<lparr>GenesisDoc.InitialHeight := 1, GenesisDoc.ConsensusParams := Some 7\<rparr>)"
  by (simp add: toy_types_def toy_ValidateAndComplete_def genesis2_def)


text \<open>
  C6. For a valid genesis description, that is one that \<open>ValidateAndComplete\<close> accepts
  and leaves with consensus parameters, \<open>NewFromGenesisDoc\<close> returns a state with
  \<open>LastBlockHeight = 0\<close>, with \<open>LastHeightValidatorsChanged\<close> and
  \<open>LastHeightConsensusParamsChanged\<close> both equal to the initial height of the genesis
  description, and with the consensus parameters and the application hash of the
  genesis description. The genesis description is the one the call leaves behind:
  \<open>ValidateAndComplete\<close> completes it in place before the state is built.
\<close>

theorem NewFromGenesisDoc_heights_and_hashes:
  assumes "ValidateAndComplete L genDoc0 = (None, genDoc)"
    and "GenesisDoc.ConsensusParams genDoc = Some params"
  shows "\<exists>st. NewFromGenesisDoc L genDoc0 = (Inr st, genDoc)
            \<and> LastBlockHeight st = 0
            \<and> LastHeightValidatorsChanged st = GenesisDoc.InitialHeight genDoc
            \<and> LastHeightConsensusParamsChanged st = GenesisDoc.InitialHeight genDoc
            \<and> State.ConsensusParams st = params
            \<and> State.AppHash st = GenesisDoc.AppHash genDoc"
  using assms
  by (simp add: NewFromGenesisDoc_def Let_def split: option.splits prod.splits)

theorem NewFromGenesisDoc_heights_and_hashes_witness:
  "ValidateAndComplete toy_types genesis2 =
     (None, genesis2\<lparr>GenesisDoc.InitialHeight := 1, GenesisDoc.ConsensusParams := Some 7\<rparr>)
   \<and> (\<exists>st. fst (NewFromGenesisDoc toy_types genesis2) = Inr st
          \<and> LastBlockHeight st = 0
          \<and> LastHeightValidatorsChanged st = 1
          \<and> LastHeightConsensusParamsChanged st = 1
          \<and> State.ConsensusParams st = 7
          \<and> State.AppHash st = [9, 9])"
proof -
  let ?g = "genesis2\<lparr>GenesisDoc.InitialHeight := 1, GenesisDoc.ConsensusParams := Some 7\<rparr>"
  have p: "GenesisDoc.ConsensusParams ?g = Some 7" by simp
  from NewFromGenesisDoc_heights_and_hashes [OF toy_complete2 p]
  obtain st where st: "NewFromGenesisDoc toy_types genesis2 = (Inr st, ?g)"
    "LastBlockHeight st = 0"
    "LastHeightValidatorsChanged st = GenesisDoc.InitialHeight ?g"
    "LastHeightConsensusParamsChanged st = GenesisDoc.InitialHeight ?g"
    "State.ConsensusParams st = 7"
    "State.AppHash st = GenesisDoc.AppHash ?g"
    by blast
  have "fst (NewFromGenesisDoc toy_types genesis2) = Inr st
          \<and> LastBlockHeight st = 0
          \<and> LastHeightValidatorsChanged st = 1
          \<and> LastHeightConsensusParamsChanged st = 1
          \<and> State.ConsensusParams st = 7
          \<and> State.AppHash st = [9, 9]"
    using st by (simp add: genesis2_def)
  then show ?thesis using toy_complete2 by blast
qed




subsection \<open>Gossip loop\<close>

lemma publish_inv_start: "publish_inv txs publish_start"
  by (simp add: publish_inv_def publish_start_def passed_def)

lemma publish_inv_step:
  assumes "publish_inv txs s" and "pool ob = txs"
  shows "publish_inv (txs @ new) (publish_step ob s)"
proof (cases "at s")
  case AtTxsWait
  then show ?thesis
    using assms
    by (cases txs)
       (auto simp add: publish_inv_def publish_step_def TxsFront_def passed_def)
next
  case AtSend
  then obtain i where i: "i < length txs" "next_elem s = Some (i, txs ! i)"
    using assms by (auto simp add: publish_inv_def)
  have p: "passed s = i" using AtSend i by (simp add: passed_def)
  have old: "\<forall>j<i. (j, txs ! j, None) \<in> set (gossiped s)"
    using assms p by (simp add: publish_inv_def)
  show ?thesis
  proof (cases "gossip_result ob")
    case (Some err)
    then show ?thesis
      using AtSend i old assms(2)
      by (auto simp add: publish_inv_def publish_step_def passed_def nth_append)
  next
    case None
    then show ?thesis
      using AtSend i old assms(2)
      by (auto simp add: publish_inv_def publish_step_def passed_def nth_append Next_def
          less_Suc_eq)
  qed
next
  case AtNextWait
  then obtain i where i: "i < length txs" "next_elem s = Some (i, txs ! i)"
    using assms by (auto simp add: publish_inv_def)
  have p: "passed s = Suc i" using AtNextWait i by (simp add: passed_def)
  have old: "\<forall>j<Suc i. (j, txs ! j, None) \<in> set (gossiped s)"
    using assms p by (simp add: publish_inv_def)
  show ?thesis
    using AtNextWait i old assms(2)
    by (auto simp add: publish_inv_def publish_step_def passed_def nth_append Next_def
        less_Suc_eq)
next
  case Returned
  then show ?thesis
    using assms by (auto simp add: publish_inv_def publish_step_def passed_def)
next
  case Crashed
  then show ?thesis
    using assms by (auto simp add: publish_inv_def)
qed

lemma publish_inv_run:
  assumes "append_only E"
  shows "publish_inv (pool (E k)) (mempoolPublishLoop E k)"
proof (induction k)
  case 0
  show ?case by (simp add: publish_inv_start)
next
  case (Suc k)
  from assms obtain new where "pool (E (Suc k)) = pool (E k) @ new"
    by (auto simp add: append_only_def)
  with publish_inv_step [OF Suc refl, of new] show ?case by simp
qed

lemma pool_grows:
  assumes "append_only E" and "k \<le> m"
  shows "\<exists>new. pool (E m) = pool (E k) @ new"
  using assms(2)
proof (induction m)
  case 0
  then show ?case by simp
next
  case (Suc m)
  show ?case
  proof (cases "k = Suc m")
    case True
    then show ?thesis by simp
  next
    case False
    with Suc obtain new where n: "pool (E m) = pool (E k) @ new" by auto
    from assms(1) obtain new' where "pool (E (Suc m)) = pool (E m) @ new'"
      by (auto simp add: append_only_def)
    with n show ?thesis by simp
  qed
qed

lemma not_returned:
  assumes "never_cancelled E"
  shows "at (mempoolPublishLoop E k) \<noteq> Returned"
proof (induction k)
  case 0
  show ?case by (simp add: publish_start_def)
next
  case (Suc k)
  have "\<not> ctx_done (E k)" using assms by (simp add: never_cancelled_def)
  with Suc show ?case
    by (auto simp add: publish_step_def split: location.splits option.splits)
qed

lemma send_success:
  assumes "at s = AtSend" and "next_elem s = Some e" and "gossip_result ob = None"
  shows "passed (publish_step ob s) = Suc (fst e)"
  using assms
  by (auto simp add: publish_step_def passed_def Next_def split: option.splits if_splits)

lemma send_progress:
  assumes "append_only E"
    and "at (mempoolPublishLoop E m) = AtSend"
    and "passed (mempoolPublishLoop E m) = n"
    and "gossip_result (E j) = None"
    and "m \<le> j"
  shows "\<exists>t\<ge>m. passed (mempoolPublishLoop E (Suc t)) = Suc n"
  using assms(2,3,5)
proof (induction "j - m" arbitrary: m)
  case 0
  then have "m = j" by simp
  from publish_inv_run [OF assms(1), of m] 0(2)
  obtain i where i: "next_elem (mempoolPublishLoop E m) = Some (i, pool (E m) ! i)"
    by (auto simp add: publish_inv_def)
  have "passed (mempoolPublishLoop E (Suc m)) = Suc n"
    using 0(2,3) i assms(4) \<open>m = j\<close> send_success [OF 0(2) i, of "E m"]
    by (simp add: passed_def)
  then show ?case by blast
next
  case (Suc d)
  from publish_inv_run [OF assms(1), of m] Suc(3)
  obtain i where i: "next_elem (mempoolPublishLoop E m) = Some (i, pool (E m) ! i)"
    by (auto simp add: publish_inv_def)
  show ?case
  proof (cases "gossip_result (E m)")
    case None
    have "passed (mempoolPublishLoop E (Suc m)) = Suc n"
      using Suc(3,4) i None send_success [OF Suc(3) i None]
      by (simp add: passed_def)
    then show ?thesis by blast
  next
    case (Some err)
    have a: "at (mempoolPublishLoop E (Suc m)) = AtSend"
      and p: "passed (mempoolPublishLoop E (Suc m)) = n"
      using Suc(3,4) i Some by (auto simp add: publish_step_def passed_def)
    have d: "d = j - Suc m" and le: "Suc m \<le> j" using Suc(2) by simp_all
    from Suc(1) [OF d a p le] obtain t where "t \<ge> Suc m"
      "passed (mempoolPublishLoop E (Suc t)) = Suc n" by blast
    then show ?thesis by (metis Suc_leD)
  qed
qed

lemma cursor_reaches:
  assumes "append_only E" and "never_cancelled E" and "gossip_recovers E"
    and "n \<le> length (pool (E k))"
  shows "\<exists>m\<ge>k. n \<le> passed (mempoolPublishLoop E m)"
  using assms(4)
proof (induction n)
  case 0
  show ?case by auto
next
  case (Suc n)
  then obtain m where m: "k \<le> m" "n \<le> passed (mempoolPublishLoop E m)" by auto
  let ?s = "mempoolPublishLoop E m"
  show ?case
  proof (cases "Suc n \<le> passed ?s")
    case True
    with m show ?thesis by blast
  next
    case False
    with m have pn: "passed ?s = n" by simp
    from pool_grows [OF assms(1) m(1)] Suc(2) have len: "n < length (pool (E m))" by auto
    have inv: "publish_inv (pool (E m)) ?s" by (rule publish_inv_run [OF assms(1)])
    have nd: "\<not> ctx_done (E m)" using assms(2) by (simp add: never_cancelled_def)
    have nr: "at ?s \<noteq> Returned" by (rule not_returned [OF assms(2)])
    have nc: "at ?s \<noteq> Crashed" using inv by (simp add: publish_inv_def)
    \<comment> \<open>one more step, if needed, brings the loop to the send with the cursor at \<open>n\<close>\<close>
    have "\<exists>m'\<ge>m. at (mempoolPublishLoop E m') = AtSend \<and> passed (mempoolPublishLoop E m') = n"
    proof (cases "at ?s")
      case AtTxsWait
      then have "next_elem ?s = None" using inv by (simp add: publish_inv_def)
      moreover have "n = 0" using pn AtTxsWait by (simp add: passed_def)
      moreover obtain tx rest where "pool (E m) = tx # rest"
        using len by (cases "pool (E m)") auto
      ultimately have "at (mempoolPublishLoop E (Suc m)) = AtSend
          \<and> passed (mempoolPublishLoop E (Suc m)) = n"
        using AtTxsWait nd by (simp add: publish_step_def TxsFront_def passed_def)
      moreover have "m \<le> Suc m" by simp
      ultimately show ?thesis by blast
    next
      case AtSend
      with pn show ?thesis by blast
    next
      case AtNextWait
      then obtain i where i: "next_elem ?s = Some (i, pool (E m) ! i)"
        using inv by (auto simp add: publish_inv_def)
      then have "n = Suc i" using pn AtNextWait by (simp add: passed_def)
      then have "at (mempoolPublishLoop E (Suc m)) = AtSend
          \<and> passed (mempoolPublishLoop E (Suc m)) = n"
        using AtNextWait i nd len by (simp add: publish_step_def Next_def passed_def)
      moreover have "m \<le> Suc m" by simp
      ultimately show ?thesis by blast
    next
      case Returned
      with nr show ?thesis by simp
    next
      case Crashed
      with nc show ?thesis by simp
    qed
    then obtain m' where m': "m \<le> m'" "at (mempoolPublishLoop E m') = AtSend"
      "passed (mempoolPublishLoop E m') = n" by blast
    from assms(3) obtain j where j: "m' \<le> j" "gossip_result (E j) = None"
      by (auto simp add: gossip_recovers_def)
    from send_progress [OF assms(1) m'(2,3) j(2,1)]
    obtain t where "m' \<le> t" "passed (mempoolPublishLoop E (Suc t)) = Suc n" by blast
    with m(1) m'(1) have "k \<le> Suc t \<and> Suc n \<le> passed (mempoolPublishLoop E (Suc t))"
      by simp
    then show ?thesis by blast
  qed
qed

lemma eventually_gossiped:
  assumes "append_only E" and "never_cancelled E" and "gossip_recovers E"
    and "i < length (pool (E k))"
  shows "\<exists>m. (i, pool (E k) ! i, None) \<in> set (gossiped (mempoolPublishLoop E m))"
proof -
  from assms(4) have "Suc i \<le> length (pool (E k))" by simp
  from cursor_reaches [OF assms(1,2,3) this]
  obtain m where m: "k \<le> m" "Suc i \<le> passed (mempoolPublishLoop E m)" by blast
  from publish_inv_run [OF assms(1), of m] m(2)
  have g: "(i, pool (E m) ! i, None) \<in> set (gossiped (mempoolPublishLoop E m))"
    by (simp add: publish_inv_def)
  from pool_grows [OF assms(1) m(1)] assms(4) have "pool (E m) ! i = pool (E k) ! i"
    by (auto simp add: nth_append)
  with g show ?thesis by auto
qed

lemma retry_same_element:
  assumes "append_only E" and "at (mempoolPublishLoop E k) = AtSend"
    and "gossip_result (E k) \<noteq> None"
  shows "at (mempoolPublishLoop E (Suc k)) = AtSend
       \<and> next_elem (mempoolPublishLoop E (Suc k)) = next_elem (mempoolPublishLoop E k)"
proof -
  from publish_inv_run [OF assms(1), of k] assms(2)
  obtain i where "next_elem (mempoolPublishLoop E k) = Some (i, pool (E k) ! i)"
    by (auto simp add: publish_inv_def)
  with assms(2,3) show ?thesis by (auto simp add: publish_step_def)
qed

lemma gossiped_step:
  "gossiped (publish_step ob s) =
     gossiped s @ (case (at s, next_elem s) of
                     (AtSend, Some e) \<Rightarrow> [(fst e, snd e, gossip_result ob)]
                   | _ \<Rightarrow> [])"
  by (simp add: publish_step_def split: location.splits option.splits)

lemma gossiped_sound:
  assumes "(j, tx, r) \<in> set (gossiped (mempoolPublishLoop E k))"
  shows "\<exists>m<k. at (mempoolPublishLoop E m) = AtSend
             \<and> next_elem (mempoolPublishLoop E m) = Some (j, tx)
             \<and> gossip_result (E m) = r"
  using assms
proof (induction k)
  case 0
  then show ?case by (simp add: publish_start_def)
next
  case (Suc k)
  let ?s = "mempoolPublishLoop E k"
  from Suc(2) have "(j, tx, r) \<in> set (gossiped ?s)
      \<or> (at ?s = AtSend \<and> next_elem ?s = Some (j, tx) \<and> gossip_result (E k) = r)"
    by (auto simp add: gossiped_step split: location.splits option.splits)
  then show ?case
  proof
    assume "(j, tx, r) \<in> set (gossiped ?s)"
    from Suc(1) [OF this] obtain m where "m < k" "at (mempoolPublishLoop E m) = AtSend"
      "next_elem (mempoolPublishLoop E m) = Some (j, tx)" "gossip_result (E m) = r" by blast
    then show ?thesis using less_Suc_eq by blast
  next
    assume "at ?s = AtSend \<and> next_elem ?s = Some (j, tx) \<and> gossip_result (E k) = r"
    then show ?thesis by blast
  qed
qed

lemma flaky_env_ok:
  "append_only flaky_env" "never_cancelled flaky_env" "gossip_recovers flaky_env"
proof -
  show "append_only flaky_env" by (simp add: append_only_def flaky_env_def)
  show "never_cancelled flaky_env" by (simp add: never_cancelled_def flaky_env_def)
  show "gossip_recovers flaky_env"
    unfolding gossip_recovers_def
  proof
    fix k
    have "k \<le> k + 3 \<and> gossip_result (flaky_env (k + 3)) = None"
      by (simp add: flaky_env_def)
    then show "\<exists>j\<ge>k. gossip_result (flaky_env j) = None" by blast
  qed
qed

lemma down_env_stuck:
  "at (mempoolPublishLoop down_env (Suc k)) = AtSend
   \<and> next_elem (mempoolPublishLoop down_env (Suc k)) = Some (0, hello)"
proof (induction k)
  case 0
  show ?case
    by (simp add: down_env_def publish_step_def publish_start_def TxsFront_def)
next
  case (Suc k)
  then show ?case
    by (simp add: down_env_def publish_step_def)
qed

text \<open>
  C8 (as the code has it). Let the pool only grow at its tail. When \<open>GossipTx\<close> fails,
  the loop stays at the send and \<open>next\<close> is unchanged: the following call is for the
  same element. Each step at the send is one \<open>GossipTx\<close> call, recorded with the result
  the network gave. Every position the cursor has left behind was the argument of an
  earlier \<open>GossipTx\<close> call that returned nil, so no transaction is skipped. If moreover
  the context is never cancelled and \<open>GossipTx\<close> does not fail forever, then for every
  transaction in the pool there is a step at which \<open>GossipTx\<close> is called on it and
  returns nil.
\<close>

theorem gossip_retry_and_delivery:
  assumes "append_only E"
  shows "(at (mempoolPublishLoop E k) = AtSend \<and> gossip_result (E k) \<noteq> None \<longrightarrow>
            at (mempoolPublishLoop E (Suc k)) = AtSend
            \<and> next_elem (mempoolPublishLoop E (Suc k)) = next_elem (mempoolPublishLoop E k))
       \<and> gossiped (mempoolPublishLoop E (Suc k)) =
            gossiped (mempoolPublishLoop E k)
            @ (case (at (mempoolPublishLoop E k), next_elem (mempoolPublishLoop E k)) of
                 (AtSend, Some e) \<Rightarrow> [(fst e, snd e, gossip_result (E k))]
               | _ \<Rightarrow> [])
       \<and> (\<forall>j<passed (mempoolPublishLoop E k).
            \<exists>m<k. at (mempoolPublishLoop E m) = AtSend
                 \<and> next_elem (mempoolPublishLoop E m) = Some (j, pool (E k) ! j)
                 \<and> gossip_result (E m) = None)
       \<and> (never_cancelled E \<and> gossip_recovers E \<longrightarrow>
            (\<forall>i<length (pool (E k)).
               \<exists>m. at (mempoolPublishLoop E m) = AtSend
                  \<and> next_elem (mempoolPublishLoop E m) = Some (i, pool (E k) ! i)
                  \<and> gossip_result (E m) = None))"
proof (intro conjI impI allI)
  assume "at (mempoolPublishLoop E k) = AtSend \<and> gossip_result (E k) \<noteq> None"
  then show "at (mempoolPublishLoop E (Suc k)) = AtSend"
    and "next_elem (mempoolPublishLoop E (Suc k)) = next_elem (mempoolPublishLoop E k)"
    using retry_same_element [OF assms] by blast+
next
  show "gossiped (mempoolPublishLoop E (Suc k)) =
            gossiped (mempoolPublishLoop E k)
            @ (case (at (mempoolPublishLoop E k), next_elem (mempoolPublishLoop E k)) of
                 (AtSend, Some e) \<Rightarrow> [(fst e, snd e, gossip_result (E k))]
               | _ \<Rightarrow> [])"
    by (simp only: mempoolPublishLoop.simps gossiped_step)
next
  fix j assume "j < passed (mempoolPublishLoop E k)"
  with publish_inv_run [OF assms, of k]
  have "(j, pool (E k) ! j, None) \<in> set (gossiped (mempoolPublishLoop E k))"
    by (simp add: publish_inv_def)
  then show "\<exists>m<k. at (mempoolPublishLoop E m) = AtSend
                 \<and> next_elem (mempoolPublishLoop E m) = Some (j, pool (E k) ! j)
                 \<and> gossip_result (E m) = None"
    by (rule gossiped_sound)
next
  fix i assume "never_cancelled E \<and> gossip_recovers E" and "i < length (pool (E k))"
  then obtain m where "(i, pool (E k) ! i, None) \<in> set (gossiped (mempoolPublishLoop E m))"
    using eventually_gossiped [OF assms] by blast
  from gossiped_sound [OF this]
  show "\<exists>m. at (mempoolPublishLoop E m) = AtSend
                  \<and> next_elem (mempoolPublishLoop E m) = Some (i, pool (E k) ! i)
                  \<and> gossip_result (E m) = None"
    by blast
qed

theorem gossip_retry_and_delivery_witness:
  "append_only flaky_env \<and> never_cancelled flaky_env \<and> gossip_recovers flaky_env
   \<and> at (mempoolPublishLoop flaky_env 1) = AtSend
   \<and> gossip_result (flaky_env 1) = Some (Error ''timeout'')
   \<and> at (mempoolPublishLoop flaky_env 2) = AtSend
   \<and> next_elem (mempoolPublishLoop flaky_env 2) = next_elem (mempoolPublishLoop flaky_env 1)
   \<and> pool (flaky_env 0) = [hello]
   \<and> (\<exists>m. at (mempoolPublishLoop flaky_env m) = AtSend
          \<and> next_elem (mempoolPublishLoop flaky_env m) = Some (0, hello)
          \<and> gossip_result (flaky_env m) = None)"
proof -
  have one: "mempoolPublishLoop flaky_env 1 =
      \<lparr>at = AtSend, next_elem = Some (0, hello), gossiped = []\<rparr>"
    by (simp add: flaky_env_def publish_step_def publish_start_def TxsFront_def)
  have a1: "at (mempoolPublishLoop flaky_env 1) = AtSend" using one by simp
  have g1: "gossip_result (flaky_env 1) = Some (Error ''timeout'')"
    by (simp add: flaky_env_def)
  have p0: "pool (flaky_env 0) = [hello]" by (simp add: flaky_env_def)
  note t = gossip_retry_and_delivery [OF flaky_env_ok(1), of 1]
  note t0 = gossip_retry_and_delivery [OF flaky_env_ok(1), of 0]
  from t a1 g1
  have r: "at (mempoolPublishLoop flaky_env (Suc 1)) = AtSend
     \<and> next_elem (mempoolPublishLoop flaky_env (Suc 1)) = next_elem (mempoolPublishLoop flaky_env 1)"
    by simp
  from t0 flaky_env_ok(2,3)
  have "\<forall>i<length (pool (flaky_env 0)).
          \<exists>m. at (mempoolPublishLoop flaky_env m) = AtSend
             \<and> next_elem (mempoolPublishLoop flaky_env m) = Some (i, pool (flaky_env 0) ! i)
             \<and> gossip_result (flaky_env m) = None"
    by blast
  then have e: "\<exists>m. at (mempoolPublishLoop flaky_env m) = AtSend
          \<and> next_elem (mempoolPublishLoop flaky_env m) = Some (0, hello)
          \<and> gossip_result (flaky_env m) = None"
    using p0 by simp
  have two: "Suc 1 = 2" by simp
  show ?thesis using flaky_env_ok a1 g1 r e p0 unfolding two by blast
qed

text \<open>
  C8 as stated fails: with two transactions pooled, the context never cancelled and
  \<open>GossipTx\<close> failing on every call, the loop retries the first transaction at every
  step; the cursor never reaches the second one, and no call ever succeeds.
\<close>

theorem gossip_delivery_counterexample:
  "append_only down_env \<and> never_cancelled down_env
   \<and> pool (down_env 0) = [hello, world]
   \<and> (\<forall>k. at (mempoolPublishLoop down_env (Suc k)) = AtSend
          \<and> next_elem (mempoolPublishLoop down_env (Suc k)) = Some (0, hello)
          \<and> gossip_result (down_env (Suc k)) = Some (Error ''network unreachable''))
   \<and> \<not> (\<exists>m. next_elem (mempoolPublishLoop down_env m) = Some (1, world))
   \<and> \<not> (\<exists>m. at (mempoolPublishLoop down_env m) = AtSend \<and> gossip_result (down_env m) = None)"
proof -
  have a: "append_only down_env" by (simp add: append_only_def down_env_def)
  have b: "never_cancelled down_env" by (simp add: never_cancelled_def down_env_def)
  have c: "pool (down_env 0) = [hello, world]" by (simp add: down_env_def)
  have d: "\<forall>k. at (mempoolPublishLoop down_env (Suc k)) = AtSend
          \<and> next_elem (mempoolPublishLoop down_env (Suc k)) = Some (0, hello)
          \<and> gossip_result (down_env (Suc k)) = Some (Error ''network unreachable'')"
    using down_env_stuck by (simp add: down_env_def)
  have e: "\<not> (\<exists>m. next_elem (mempoolPublishLoop down_env m) = Some (1, world))"
  proof
    assume "\<exists>m. next_elem (mempoolPublishLoop down_env m) = Some (1, world)"
    then obtain m where m: "next_elem (mempoolPublishLoop down_env m) = Some (1, world)" by blast
    show False
    proof (cases m)
      case 0
      with m show False by (simp add: publish_start_def)
    next
      case (Suc k)
      with m down_env_stuck [of k] show False by simp
    qed
  qed
  have f: "\<not> (\<exists>m. at (mempoolPublishLoop down_env m) = AtSend \<and> gossip_result (down_env m) = None)"
    by (simp add: down_env_def)
  show ?thesis using a b c d e f by blast
qed

text \<open>
  C9 fails for the gossip loop. With a transaction pooled, \<open>GossipTx\<close> failing on every
  call and the context cancelled after the first step, the loop is at the send, on
  the same element, after every later step: the retry \<open>continue\<close>s inside the inner
  \<open>for\<close> and never reaches a \<open>select\<close> on \<open>ctx.Done()\<close>, so the loop does not return.
\<close>

theorem mempoolPublishLoop_ignores_cancellation:
  "\<forall>k. ctx_done (stuck_env (Suc k))
      \<and> at (mempoolPublishLoop stuck_env (Suc k)) = AtSend
      \<and> next_elem (mempoolPublishLoop stuck_env (Suc k)) = Some (0, hello)"
proof
  fix k
  show "ctx_done (stuck_env (Suc k))
      \<and> at (mempoolPublishLoop stuck_env (Suc k)) = AtSend
      \<and> next_elem (mempoolPublishLoop stuck_env (Suc k)) = Some (0, hello)"
  proof (induction k)
    case 0
    show ?case
      by (simp add: stuck_env_def publish_step_def publish_start_def TxsFront_def)
  next
    case (Suc k)
    then show ?case
      by (simp add: stuck_env_def publish_step_def)
  qed
qed

end
